theory Spec2Isabelle
  imports Complex_Main
begin

section \<open>JavaScript values used by the server and the worker\<close>

text \<open>
  A finite JavaScript number is modelled by its exact value, a rational; \<open>NaN\<close> is kept
  apart, because \<open>x || 60000\<close> and \<open>Date.now() < end\<close> treat it specially. The arithmetic
  of the sampler is the double-precision one: every operation is followed by the rounding
  \<open>fl\<close> defined below. The readings of \<open>Date.now()\<close> and the durations are whole
  milliseconds, whose sum is exact. Infinities, strings, arrays and objects are outside
  the model.
\<close>

datatype jsnum = Fin rat | NaN

datatype jsval = Undefined | Null | JBool bool | JNum jsnum

text \<open>The truthiness test of \<open>||\<close>.\<close>

fun truthy :: "jsval \<Rightarrow> bool" where
  "truthy Undefined = False"
| "truthy Null = False"
| "truthy (JBool b) = b"
| "truthy (JNum (Fin r)) = (r \<noteq> 0)"
| "truthy (JNum NaN) = False"

definition js_or :: "jsval \<Rightarrow> jsval \<Rightarrow> jsval" where
  "js_or a b = (if truthy a then a else b)"

text \<open>The conversion \<open>Number(v)\<close>.\<close>

fun Number_js :: "jsval \<Rightarrow> jsnum" where
  "Number_js Undefined = NaN"
| "Number_js Null = Fin 0"
| "Number_js (JBool b) = Fin (if b then 1 else 0)"
| "Number_js (JNum n) = n"

fun js_add :: "jsnum \<Rightarrow> jsnum \<Rightarrow> jsnum" where
  "js_add (Fin a) (Fin b) = Fin (a + b)"
| "js_add _ _ = NaN"


text \<open>\<open>Math.round\<close>: the nearest integer, a tie going up.\<close>

definition Math_round :: "rat \<Rightarrow> int" where
  "Math_round x = \<lfloor>x + 1 / 2\<rfloor>"

section \<open>Double-precision arithmetic\<close>

text \<open>The number of binary digits of a positive integer.\<close>

function bits :: "int \<Rightarrow> int" where
  "bits n = (if n \<le> 0 then 0 else bits (n div 2) + 1)"
  by pat_completeness auto
termination
  by (relation "measure nat") auto

declare bits.simps [simp del]

definition pow2 :: "int \<Rightarrow> rat" where
  "pow2 k = (if 0 \<le> k then 2 ^ nat k else 1 / 2 ^ nat (- k))"

text \<open>For \<open>x > 0\<close>, the exponent \<open>e\<close> with \<open>2 ^ e \<le> x < 2 ^ (e + 1)\<close>.\<close>

definition binary_exponent :: "rat \<Rightarrow> int" where
  "binary_exponent x =
     (if 1 \<le> x then bits \<lfloor>x\<rfloor> - 1
      else (let m = bits \<lfloor>1 / x\<rfloor> - 1
            in if x * pow2 m = 1 then - m else - m - 1))"

text \<open>The nearest integer, a tie going to the even one.\<close>

definition round_even :: "rat \<Rightarrow> int" where
  "round_even x =
     (let f = \<lfloor>x\<rfloor>; r = x - of_int f
      in if r < 1 / 2 then f
         else if 1 / 2 < r then f + 1
         else if even f then f else f + 1)"

text \<open>
  Rounding to the nearest IEEE 754 binary64 number, ties to even: 53 significant bits, and
  below \<open>2 ^ (- 1022)\<close> the fixed spacing \<open>2 ^ (- 1074)\<close> of the subnormal numbers.
  Results too large for a double (an infinity in JavaScript) are outside the model.
\<close>

definition fl :: "rat \<Rightarrow> rat" where
  "fl x =
     (if x = 0 then 0
      else (let e = max (binary_exponent \<bar>x\<bar>) (- 1022);
                ulp = pow2 (e - 52)
            in of_int (round_even (x / ulp)) * ulp))"

text \<open>The operators \<open>+\<close>, \<open>-\<close> and \<open>*\<close> on finite numbers.\<close>

definition fl_add :: "rat \<Rightarrow> rat \<Rightarrow> rat" where
  "fl_add a b = fl (a + b)"

definition fl_sub :: "rat \<Rightarrow> rat \<Rightarrow> rat" where
  "fl_sub a b = fl (a - b)"

definition fl_mul :: "rat \<Rightarrow> rat \<Rightarrow> rat" where
  "fl_mul a b = fl (a * b)"

section \<open>Utilization sampler\<close>

text \<open>One entry of \<open>os.cpus()\<close>; only its \<open>times\<close> are read.\<close>

record cpu_times =
  user :: rat
  nice :: rat
  sys :: rat
  idle :: rat
  irq :: rat

record cpu =
  times :: cpu_times

text \<open>
  \<open>TypeError\<close> is what \<open>p.times\<close> throws when \<open>prev[i]\<close> is \<open>undefined\<close>.
  \<open>ZeroDivisor\<close> is not a JavaScript exception: a division by zero yields \<open>NaN\<close> or an
  infinity there. The model flags it as an error value so that its absence can be stated.
\<close>

datatype error = TypeError | ZeroDivisor

definition js_div :: "rat \<Rightarrow> rat \<Rightarrow> error + rat" where
  "js_div a b = (if b = 0 then Inl ZeroDivisor else Inr (fl (a / b)))"

text \<open>The body of the callback of \<open>curr.map\<close> in \<open>calcCpuUsagePercent\<close>, once \<open>p\<close> is known.\<close>

definition core_usage :: "cpu \<Rightarrow> cpu \<Rightarrow> error + rat" where
  "core_usage p c =
     (let prevTotal =
            fl_add (fl_add (fl_add (fl_add (user (times p)) (nice (times p))) (sys (times p)))
                           (idle (times p)))
                   (irq (times p));
          currTotal =
            fl_add (fl_add (fl_add (fl_add (user (times c)) (nice (times c))) (sys (times c)))
                           (idle (times c)))
                   (irq (times c));
          totalDiff = fl_sub currTotal prevTotal;
          idleDiff = fl_sub (idle (times c)) (idle (times p))
      in if totalDiff \<le> 0 then Inr 0
         else (case js_div idleDiff totalDiff of
                 Inl e \<Rightarrow> Inl e
               | Inr q \<Rightarrow> Inr (max 0 (min 100 (fl_mul (fl_sub 1 q) 100)))))"

text \<open>\<open>Array.prototype.map\<close> with a callback that may throw: the first throw ends the call.\<close>

fun collect :: "(error + 'a) list \<Rightarrow> error + 'a list" where
  "collect [] = Inr []"
| "collect (Inl e # rs) = Inl e"
| "collect (Inr x # rs) = (case collect rs of Inl e \<Rightarrow> Inl e | Inr xs \<Rightarrow> Inr (x # xs))"

definition calcCpuUsagePercent :: "cpu list \<Rightarrow> cpu list \<Rightarrow> error + rat list" where
  "calcCpuUsagePercent prev cur =
     collect (map (\<lambda>(i, c). if i < length prev then core_usage (prev ! i) c else Inl TypeError)
                  (enumerate 0 cur))"

text \<open>
  The usage of one core as the specification words it: the deltas of the totals and of the
  idle counters, the percentage \<open>(1 - idleDelta / totalDelta) * 100\<close> clamped to 0..100, and
  0 when the total delta is not positive. The operations are those of the program's
  numbers.
\<close>

definition spec_total :: "cpu \<Rightarrow> rat" where
  "spec_total c =
     fl_add (fl_add (fl_add (fl_add (user (times c)) (nice (times c))) (sys (times c)))
                    (idle (times c)))
            (irq (times c))"

definition spec_usage :: "cpu \<Rightarrow> cpu \<Rightarrow> rat" where
  "spec_usage p c =
     (let totalDelta = fl_sub (spec_total c) (spec_total p);
          idleDelta = fl_sub (idle (times c)) (idle (times p))
      in if totalDelta \<le> 0 then 0
         else max 0 (min 100 (fl_mul (fl_sub 1 (fl (idleDelta / totalDelta))) 100)))"

section \<open>The server's state\<close>

text \<open>
  The three module-level variables of the server, and beside them what the program leaves
  in the \<open>worker_threads\<close> runtime: how many \<open>Worker\<close> objects were constructed (a worker
  is named by its rank of construction), the messages posted to workers, and the workers
  on which \<open>terminate()\<close> was called, in order.
\<close>

record server =
  stressWorkers :: "nat list"
  isStressing :: bool
  lastCpuSnapshot :: "cpu list"
  constructed :: nat
  posted :: "(nat \<times> jsval) list"
  terminated :: "nat list"

text \<open>The state once the module is loaded; \<open>boot\<close> is what \<open>os.cpus()\<close> returns then.\<close>

definition init_server :: "cpu list \<Rightarrow> server" where
  "init_server boot =
     \<lparr>stressWorkers = [], isStressing = False, lastCpuSnapshot = boot,
      constructed = 0, posted = [], terminated = []\<rparr>"

section \<open>GET /metrics\<close>

text \<open>
  The reply, without \<open>loadAvg\<close>, which is read from the operating system and passed on.
  An exception thrown by \<open>calcCpuUsagePercent\<close> leaves the handler before the assignment
  to \<open>lastCpuSnapshot\<close>.
\<close>

record core_report =
  core :: nat
  usage :: int

record metrics_reply =
  r_isStressing :: bool
  cpus :: "core_report list"
  totalCPUs :: nat

definition metrics :: "cpu list \<Rightarrow> server \<Rightarrow> server \<times> (error + metrics_reply)" where
  "metrics cur s =
     (case calcCpuUsagePercent (lastCpuSnapshot s) cur of
        Inl e \<Rightarrow> (s, Inl e)
      | Inr usageArr \<Rightarrow>
          (s\<lparr>lastCpuSnapshot := cur\<rparr>,
           Inr \<lparr>r_isStressing = isStressing s,
                cpus = map (\<lambda>(i, u). \<lparr>core = i, usage = Math_round u\<rparr>) (enumerate 0 usageArr),
                totalCPUs = length cur\<rparr>))"

section \<open>Load generator\<close>

text \<open>
  \<open>stopStress\<close>: \<open>terminate()\<close> on every handle, in order (what it may throw is caught
  and dropped), then the handle list is emptied and the flag cleared.
\<close>

definition stopStress :: "server \<Rightarrow> server" where
  "stopStress s =
     s\<lparr>terminated := terminated s @ stressWorkers s, stressWorkers := [], isStressing := False\<rparr>"

text \<open>
  One turn of the \<open>for\<close> loop of \<open>stressCPU\<close>: a new \<open>Worker\<close>, its three listeners
  (they run later, as events of their own), the push onto \<open>stressWorkers\<close> and the
  message carrying \<open>durationMs\<close>.
\<close>

definition spawn_worker :: "jsval \<Rightarrow> server \<Rightarrow> server" where
  "spawn_worker durationMs s =
     (let worker = constructed s
      in s\<lparr>constructed := Suc worker,
            stressWorkers := stressWorkers s @ [worker],
            posted := posted s @ [(worker, durationMs)]\<rparr>)"

text \<open>The loop \<open>for (let i = 0; i < numCPUs; i++)\<close>, by the number of turns still to run.\<close>

fun spawn_workers :: "nat \<Rightarrow> jsval \<Rightarrow> server \<Rightarrow> server" where
  "spawn_workers 0 durationMs s = s"
| "spawn_workers (Suc k) durationMs s = spawn_workers k durationMs (spawn_worker durationMs s)"

text \<open>
  \<open>stressCPU(durationMs = 60000)\<close>; \<open>numCPUs\<close> is \<open>os.cpus().length\<close> at the call. The
  default of the parameter applies when the argument is \<open>undefined\<close>. The flag is set,
  then \<open>stopStress()\<close> runs, then the workers are spawned.
\<close>

definition stressCPU :: "nat \<Rightarrow> jsval \<Rightarrow> server \<Rightarrow> server" where
  "stressCPU numCPUs arg s =
     (let durationMs = (if arg = Undefined then JNum (Fin 60000) else arg);
          s1 = s\<lparr>isStressing := True\<rparr>;
          s2 = stopStress s1
      in spawn_workers numCPUs durationMs s2)"

text \<open>The listener of a worker's messages: \<open>done\<close> is \<open>msg && msg.done\<close>.\<close>

definition on_message :: "nat \<Rightarrow> bool \<Rightarrow> server \<Rightarrow> server" where
  "on_message worker done s = (if done then s\<lparr>terminated := terminated s @ [worker]\<rparr> else s)"

text \<open>The listener of a worker's exit.\<close>

definition on_exit :: "nat \<Rightarrow> server \<Rightarrow> server" where
  "on_exit worker s =
     (let ws = filter (\<lambda>w. w \<noteq> worker) (stressWorkers s)
      in if length ws = 0 then s\<lparr>stressWorkers := ws, isStressing := False\<rparr>
         else s\<lparr>stressWorkers := ws\<rparr>)"

text \<open>The listener of a worker's error: it logs the error and changes nothing.\<close>

definition on_error :: "nat \<Rightarrow> server \<Rightarrow> server" where
  "on_error worker s = s"

section \<open>POST /stress and POST /stop-stress\<close>

text \<open>
  \<open>req.body\<close> is \<open>None\<close> when the request has no parsed body, else the fields of the JSON
  object. \<open>req.body?.duration\<close> is \<open>undefined\<close> when the body or the field is missing.
\<close>

type_synonym body = "(string \<times> jsval) list option"

definition body_duration :: "body \<Rightarrow> jsval" where
  "body_duration b =
     (case b of
        None \<Rightarrow> Undefined
      | Some obj \<Rightarrow> (case map_of obj ''duration'' of None \<Rightarrow> Undefined | Some v \<Rightarrow> v))"

record reply =
  success :: bool
  message :: string
  duration :: "jsnum option"

definition post_stress :: "body \<Rightarrow> nat \<Rightarrow> server \<Rightarrow> server \<times> reply" where
  "post_stress b numCPUs s =
     (let d = Number_js (js_or (body_duration b) (JNum (Fin 60000)))
      in if isStressing s
         then (s, \<lparr>success = False, message = ''Stress test already running'', duration = None\<rparr>)
         else (stressCPU numCPUs (JNum d) s,
               \<lparr>success = True, message = ''Stress test started'', duration = Some d\<rparr>))"

definition post_stop_stress :: "server \<Rightarrow> server \<times> reply" where
  "post_stop_stress s =
     (stopStress s, \<lparr>success = True, message = ''Stress test stopped'', duration = None\<rparr>)"

text \<open>What the specification calls an invalid duration: a missing or a non-positive value.\<close>

fun spec_invalid_duration :: "jsval \<Rightarrow> bool" where
  "spec_invalid_duration Undefined = True"
| "spec_invalid_duration (JNum (Fin r)) = (r \<le> 0)"
| "spec_invalid_duration _ = False"

section \<open>The system as a sequence of events\<close>

datatype event =
    PostStress body nat
  | PostStopStress
  | GetMetrics "cpu list"
  | WorkerMessage nat bool
  | WorkerExit nat
  | WorkerError nat

fun step :: "server \<Rightarrow> event \<Rightarrow> server" where
  "step s (PostStress b numCPUs) = fst (post_stress b numCPUs s)"
| "step s PostStopStress = fst (post_stop_stress s)"
| "step s (GetMetrics cur) = fst (metrics cur s)"
| "step s (WorkerMessage worker done) = on_message worker done s"
| "step s (WorkerExit worker) = on_exit worker s"
| "step s (WorkerError worker) = on_error worker s"

definition run :: "cpu list \<Rightarrow> event list \<Rightarrow> server" where
  "run boot evs = foldl step (init_server boot) evs"

section \<open>The worker\<close>



definition worker_end :: "rat \<Rightarrow> jsval \<Rightarrow> jsnum" where
  "worker_end start durationMs =
     js_add (Fin start) (Number_js (js_or durationMs (JNum (Fin 60000))))"


section \<open>Concrete inputs\<close>

text \<open>An entry of \<open>os.cpus()\<close> from its five counters.\<close>

definition mk_cpu :: "rat \<Rightarrow> rat \<Rightarrow> rat \<Rightarrow> rat \<Rightarrow> rat \<Rightarrow> cpu" where
  "mk_cpu u n s i q = \<lparr>times = \<lparr>user = u, nice = n, sys = s, idle = i, irq = q\<rparr>\<rparr>"

section \<open>Properties of the sampler\<close>

lemma core_usage_spec: "core_usage p c = Inr (spec_usage p c)"
  by (simp add: core_usage_def spec_usage_def spec_total_def js_div_def Let_def)

lemma collect_map_Inr: "collect (map Inr xs) = Inr xs"
  by (induction xs) simp_all

lemma spec_usage_range: "0 \<le> spec_usage p c \<and> spec_usage p c \<le> 100"
  by (simp add: spec_usage_def Let_def)

lemma Math_round_range: "0 \<le> u \<Longrightarrow> u \<le> 100 \<Longrightarrow> 0 \<le> Math_round u \<and> Math_round u \<le> 100"
  unfolding Math_round_def by (simp add: floor_le_iff)

lemma collect_first_error: "collect (map Inr xs @ Inl e # rs) = Inl e"
  by (induction xs) simp_all

lemma usage_map_within:
  "length cur \<le> length prev \<Longrightarrow>
   map (\<lambda>(i, c). if i < length prev then core_usage (prev ! i) c else Inl TypeError) (enumerate 0 cur)
   = map Inr (map (\<lambda>i. spec_usage (prev ! i) (cur ! i)) [0..<length cur])"
  by (rule nth_equalityI) (simp_all add: nth_enumerate_eq core_usage_spec)

lemma calc_within:
  "length cur \<le> length prev \<Longrightarrow>
   calcCpuUsagePercent prev cur = Inr (map (\<lambda>i. spec_usage (prev ! i) (cur ! i)) [0..<length cur])"
  unfolding calcCpuUsagePercent_def by (simp only: usage_map_within collect_map_Inr)

lemma calc_beyond:
  assumes "length prev < length cur"
  shows "calcCpuUsagePercent prev cur = Inl TypeError"
proof -
  let ?f = "\<lambda>(i, c). if i < length prev then core_usage (prev ! i) c else Inl TypeError"
  let ?n = "length prev"
  obtain c cs where d: "drop ?n cur = c # cs"
    using assms by (cases "drop ?n cur") simp_all
  have len: "length (take ?n cur) = ?n" using assms by simp
  have "enumerate 0 cur = enumerate 0 (take ?n cur) @ enumerate ?n (drop ?n cur)"
    using enumerate_append_eq [of 0 "take ?n cur" "drop ?n cur"] len by simp
  moreover have "map ?f (enumerate 0 (take ?n cur))
      = map Inr (map (\<lambda>i. spec_usage (prev ! i) (take ?n cur ! i)) [0..<length (take ?n cur)])"
    using usage_map_within [of "take ?n cur" prev] by simp
  ultimately have "map ?f (enumerate 0 cur)
      = map Inr (map (\<lambda>i. spec_usage (prev ! i) (take ?n cur ! i)) [0..<length (take ?n cur)])
        @ Inl TypeError # map ?f (enumerate (Suc ?n) cs)"
    using d by simp
  then show ?thesis
    unfolding calcCpuUsagePercent_def by (simp only: collect_first_error)
qed

lemma report_map:
  "map (\<lambda>(j, u). \<lparr>core = j, usage = Math_round u\<rparr>) (enumerate 0 (map h [0..<n]))
   = map (\<lambda>j. \<lparr>core = j, usage = Math_round (h j)\<rparr>) [0..<n]"
  by (rule nth_equalityI) (simp_all add: nth_enumerate_eq)

text \<open>
  Usages at concrete counters. With total delta 40 and idle delta 17 the three rounded
  operations give 57.49999999999999 (the exact quotient would give 57.5), which
  \<open>Math.round\<close> takes to 57.
\<close>

lemma usage_23_17:
  "spec_usage (mk_cpu 0 0 0 0 0) (mk_cpu 23 0 0 17 0) = 8092405580431359 / 140737488355328"
  by code_simp

lemma round_usage_23_17: "Math_round (8092405580431359 / 140737488355328) = 57"
  by code_simp

lemma usage_50: "spec_usage (mk_cpu 100 0 0 700 0) (mk_cpu 150 0 50 800 0) = 50"
  by code_simp

lemma usage_0: "spec_usage (mk_cpu 5 5 5 5 5) (mk_cpu 5 5 5 5 5) = 0"
  by code_simp

lemma usage_100: "spec_usage (mk_cpu 150 0 50 800 0) (mk_cpu 250 0 50 800 0) = 100"
  by code_simp

lemma round_usage_67:
  "Math_round (spec_usage (mk_cpu 100 0 0 700 0) (mk_cpu 250 0 50 800 0)) = 67"
  by code_simp

lemma round_100: "Math_round 100 = 100"
  unfolding Math_round_def by (rule floor_unique) simp_all

text \<open>
  Claim C5, as stated for every pair of snapshots, fails when the current snapshot has
  more cores than the previous one: \<open>prev[1]\<close> is \<open>undefined\<close>, \<open>calcCpuUsagePercent\<close> throws
  a \<open>TypeError\<close>, and \<open>/metrics\<close> reports no usage for any core, core 0 included.
\<close>

theorem sample_throws_when_cores_added:
  "calcCpuUsagePercent [mk_cpu 0 0 0 0 0] [mk_cpu 23 0 0 17 0, mk_cpu 5 5 5 5 5] = Inl TypeError
   \<and> metrics [mk_cpu 23 0 0 17 0, mk_cpu 5 5 5 5 5] (init_server [mk_cpu 0 0 0 0 0])
       = (init_server [mk_cpu 0 0 0 0 0], Inl TypeError)"
proof -
  have "calcCpuUsagePercent [mk_cpu 0 0 0 0 0] [mk_cpu 23 0 0 17 0, mk_cpu 5 5 5 5 5]
      = Inl TypeError"
    by (rule calc_beyond) simp
  then show ?thesis
    by (simp add: metrics_def init_server_def)
qed

text \<open>
  Claim C5, amended. For every pair of snapshots in which the current one has no more cores
  than the previous one, and every core \<open>i\<close> of the current one, \<open>calcCpuUsagePercent\<close>
  returns the value the specification describes, computed in double precision: with the
  total delta (the difference of the sums user + nice + system + idle + interrupt) and
  the idle delta, the percentage \<open>(1 - idleDelta / totalDelta) * 100\<close> clamped to 0..100,
  and 0 when the total delta is not positive. The reply of \<open>/metrics\<close> carries that value
  rounded to the nearest integer.
\<close>

theorem sample_usage_formula:
  assumes "i < length cur" and "length cur \<le> length (lastCpuSnapshot s)"
  shows "\<exists>us r. calcCpuUsagePercent (lastCpuSnapshot s) cur = Inr us
           \<and> length us = length cur
           \<and> us ! i = spec_usage (lastCpuSnapshot s ! i) (cur ! i)
           \<and> (fl_sub (spec_total (cur ! i)) (spec_total (lastCpuSnapshot s ! i)) \<le> 0
                \<longrightarrow> us ! i = 0)
           \<and> snd (metrics cur s) = Inr r
           \<and> cpus r ! i = \<lparr>core = i, usage = Math_round (us ! i)\<rparr>"
proof -
  let ?us = "map (\<lambda>j. spec_usage (lastCpuSnapshot s ! j) (cur ! j)) [0..<length cur]"
  have c: "calcCpuUsagePercent (lastCpuSnapshot s) cur = Inr ?us"
    using assms(2) by (rule calc_within)
  have n: "?us ! i = spec_usage (lastCpuSnapshot s ! i) (cur ! i)"
    using assms(1) by simp
  have z: "fl_sub (spec_total (cur ! i)) (spec_total (lastCpuSnapshot s ! i)) \<le> 0
      \<longrightarrow> ?us ! i = 0"
    unfolding n by (simp add: spec_usage_def)
  let ?r = "\<lparr>r_isStressing = isStressing s,
             cpus = map (\<lambda>j. \<lparr>core = j, usage = Math_round (spec_usage (lastCpuSnapshot s ! j) (cur ! j))\<rparr>)
                        [0..<length cur],
             totalCPUs = length cur\<rparr>"
  have m: "snd (metrics cur s) = Inr ?r"
    unfolding metrics_def by (simp only: c sum.case snd_conv report_map)
  have r: "cpus ?r ! i = \<lparr>core = i, usage = Math_round (?us ! i)\<rparr>"
    using assms(1) by simp
  have l: "length ?us = length cur" by simp
  from c l n z m r show ?thesis by blast
qed

text \<open>
  The amended C5 at one core whose counters went from (0, 0, 0, 0, 0) to (23, 0, 0, 17, 0):
  total delta 40, idle delta 17, usage 57.49999999999999, reported as 57.
\<close>

theorem sample_usage_formula_witness:
  "(0::nat) < length [mk_cpu 23 0 0 17 0]
   \<and> length [mk_cpu 23 0 0 17 0] \<le> length (lastCpuSnapshot (init_server [mk_cpu 0 0 0 0 0]))
   \<and> (\<exists>us r. calcCpuUsagePercent (lastCpuSnapshot (init_server [mk_cpu 0 0 0 0 0]))
                 [mk_cpu 23 0 0 17 0] = Inr us
          \<and> us ! 0 = 8092405580431359 / 140737488355328
          \<and> snd (metrics [mk_cpu 23 0 0 17 0] (init_server [mk_cpu 0 0 0 0 0])) = Inr r
          \<and> cpus r ! 0 = \<lparr>core = 0, usage = 57\<rparr>)"
proof -
  have h1: "(0::nat) < length [mk_cpu 23 0 0 17 0]" by simp
  have h2: "length [mk_cpu 23 0 0 17 0] \<le> length (lastCpuSnapshot (init_server [mk_cpu 0 0 0 0 0]))"
    by (simp add: init_server_def)
  from sample_usage_formula [OF h1 h2] obtain us r where
    c: "calcCpuUsagePercent (lastCpuSnapshot (init_server [mk_cpu 0 0 0 0 0]))
        [mk_cpu 23 0 0 17 0] = Inr us"
    and u: "us ! 0 = spec_usage (lastCpuSnapshot (init_server [mk_cpu 0 0 0 0 0]) ! 0)
        ([mk_cpu 23 0 0 17 0] ! 0)"
    and m: "snd (metrics [mk_cpu 23 0 0 17 0] (init_server [mk_cpu 0 0 0 0 0])) = Inr r"
    and k: "cpus r ! 0 = \<lparr>core = 0, usage = Math_round (us ! 0)\<rparr>"
    by blast
  have u': "us ! 0 = 8092405580431359 / 140737488355328"
    unfolding u by (simp only: init_server_def server.simps nth_Cons_0 usage_23_17)
  have k': "cpus r ! 0 = \<lparr>core = 0, usage = 57\<rparr>"
    unfolding k u' by (simp only: round_usage_23_17)
  from h1 h2 c u' m k' show ?thesis by blast
qed

text \<open>
  Claim C6. For any two snapshots, every usage that \<open>calcCpuUsagePercent\<close> returns and every
  usage that \<open>/metrics\<close> reports lies between 0 and 100, and the division is never reached
  with a zero divisor. A result is returned whenever the new snapshot has no more cores
  than the previous one.
\<close>

theorem sample_usage_in_range:
  "calcCpuUsagePercent prev cur \<noteq> Inl ZeroDivisor
   \<and> (\<forall>us. calcCpuUsagePercent prev cur = Inr us \<longrightarrow> (\<forall>u \<in> set us. 0 \<le> u \<and> u \<le> 100))
   \<and> (\<forall>r. snd (metrics cur s) = Inr r \<longrightarrow> (\<forall>c \<in> set (cpus r). 0 \<le> usage c \<and> usage c \<le> 100))
   \<and> (length cur \<le> length prev \<longrightarrow>
        (\<exists>us. calcCpuUsagePercent prev cur = Inr us \<and> length us = length cur))"
proof (intro conjI allI impI)
  show "calcCpuUsagePercent prev cur \<noteq> Inl ZeroDivisor"
    by (cases "length cur \<le> length prev") (simp_all add: calc_within calc_beyond)
next
  fix us assume "calcCpuUsagePercent prev cur = Inr us"
  then have "us = map (\<lambda>i. spec_usage (prev ! i) (cur ! i)) [0..<length cur]"
    by (cases "length cur \<le> length prev") (simp_all add: calc_within calc_beyond)
  then show "\<forall>u \<in> set us. 0 \<le> u \<and> u \<le> 100"
    using spec_usage_range by auto
next
  fix r assume a: "snd (metrics cur s) = Inr r"
  let ?us = "map (\<lambda>i. spec_usage (lastCpuSnapshot s ! i) (cur ! i)) [0..<length cur]"
  have le: "length cur \<le> length (lastCpuSnapshot s)"
  proof (rule ccontr)
    assume "\<not> length cur \<le> length (lastCpuSnapshot s)"
    then have "calcCpuUsagePercent (lastCpuSnapshot s) cur = Inl TypeError"
      by (simp add: calc_beyond)
    then show False using a by (simp add: metrics_def)
  qed
  have "cpus r = map (\<lambda>j. \<lparr>core = j, usage = Math_round (spec_usage (lastCpuSnapshot s ! j) (cur ! j))\<rparr>)
                     [0..<length cur]"
    using a by (auto simp: metrics_def calc_within [OF le] report_map)
  then show "\<forall>c \<in> set (cpus r). 0 \<le> usage c \<and> usage c \<le> 100"
    using spec_usage_range Math_round_range by auto
next
  assume "length cur \<le> length prev"
  then show "\<exists>us. calcCpuUsagePercent prev cur = Inr us \<and> length us = length cur"
    by (simp add: calc_within)
qed

text \<open>
  C6 at two cores: one with total delta 200 and idle delta 100, one whose counters did not
  move (total delta 0).
\<close>

theorem sample_usage_in_range_witness:
  "calcCpuUsagePercent [mk_cpu 100 0 0 700 0, mk_cpu 5 5 5 5 5]
       [mk_cpu 150 0 50 800 0, mk_cpu 5 5 5 5 5] = Inr [50, 0]
   \<and> (0::rat) \<le> 50 \<and> (50::rat) \<le> 100 \<and> (0::rat) \<le> 0 \<and> (0::rat) \<le> 100
   \<and> length [mk_cpu 150 0 50 800 0, mk_cpu 5 5 5 5 5]
       \<le> length [mk_cpu 100 0 0 700 0, mk_cpu 5 5 5 5 5]
   \<and> calcCpuUsagePercent [mk_cpu 100 0 0 700 0, mk_cpu 5 5 5 5 5]
        [mk_cpu 150 0 50 800 0, mk_cpu 5 5 5 5 5] \<noteq> Inl ZeroDivisor"
proof -
  let ?p = "[mk_cpu 100 0 0 700 0, mk_cpu 5 5 5 5 5]"
  let ?c = "[mk_cpu 150 0 50 800 0, mk_cpu 5 5 5 5 5]"
  have e: "calcCpuUsagePercent ?p ?c = Inr [50, 0]"
    by (simp add: calcCpuUsagePercent_def core_usage_spec usage_50 usage_0)
  have h: "length ?c \<le> length ?p" by simp
  show ?thesis
    using e h sample_usage_in_range [of ?p ?c "init_server ?p"] by simp
qed

text \<open>
  Claim C7, as stated for every call, fails at a call whose snapshot has more cores than
  the stored one: the handler throws before the assignment, the stored snapshot stays
  the one read at startup, and the next call reports 67, the usage since startup, where
  the usage since the preceding call would be 100.
\<close>

theorem failed_sample_keeps_old_baseline:
  "metrics [mk_cpu 150 0 50 800 0, mk_cpu 5 5 5 5 5] (init_server [mk_cpu 100 0 0 700 0])
     = (init_server [mk_cpu 100 0 0 700 0], Inl TypeError)
   \<and> lastCpuSnapshot
        (fst (metrics [mk_cpu 150 0 50 800 0, mk_cpu 5 5 5 5 5] (init_server [mk_cpu 100 0 0 700 0])))
       = [mk_cpu 100 0 0 700 0]
   \<and> snd (metrics [mk_cpu 250 0 50 800 0]
            (fst (metrics [mk_cpu 150 0 50 800 0, mk_cpu 5 5 5 5 5]
                    (init_server [mk_cpu 100 0 0 700 0]))))
       = Inr \<lparr>r_isStressing = False, cpus = [\<lparr>core = 0, usage = 67\<rparr>], totalCPUs = 1\<rparr>
   \<and> Math_round (spec_usage (mk_cpu 150 0 50 800 0) (mk_cpu 250 0 50 800 0)) = 100"
proof -
  have t: "calcCpuUsagePercent [mk_cpu 100 0 0 700 0] [mk_cpu 150 0 50 800 0, mk_cpu 5 5 5 5 5]
      = Inl TypeError"
    by (rule calc_beyond) simp
  have m: "metrics [mk_cpu 150 0 50 800 0, mk_cpu 5 5 5 5 5] (init_server [mk_cpu 100 0 0 700 0])
      = (init_server [mk_cpu 100 0 0 700 0], Inl TypeError)"
    by (simp add: metrics_def init_server_def t)
  have c: "calcCpuUsagePercent [mk_cpu 100 0 0 700 0] [mk_cpu 250 0 50 800 0]
      = Inr [spec_usage (mk_cpu 100 0 0 700 0) (mk_cpu 250 0 50 800 0)]"
    by (simp add: calcCpuUsagePercent_def core_usage_spec)
  have n: "snd (metrics [mk_cpu 250 0 50 800 0] (init_server [mk_cpu 100 0 0 700 0]))
      = Inr \<lparr>r_isStressing = False, cpus = [\<lparr>core = 0, usage = 67\<rparr>], totalCPUs = 1\<rparr>"
    by (simp add: metrics_def init_server_def c round_usage_67)
  show ?thesis
    by (simp add: m n usage_100 round_100) (simp add: init_server_def)
qed

text \<open>
  Claim C7, amended. A call of \<open>/metrics\<close> whose snapshot has no more cores than the stored
  one stores the snapshot it read as \<open>lastCpuSnapshot\<close>, so the next such call reports usage
  relative to that snapshot, whatever was stored before; and the state at startup already
  holds the snapshot read when the module was loaded.
\<close>

theorem sample_replaces_previous:
  assumes "length c1 \<le> length (lastCpuSnapshot s)" and "length c2 \<le> length c1"
  shows "lastCpuSnapshot (fst (metrics c1 s)) = c1
         \<and> lastCpuSnapshot (fst (metrics c2 (fst (metrics c1 s)))) = c2
         \<and> snd (metrics c2 (fst (metrics c1 s)))
             = Inr \<lparr>r_isStressing = isStressing s,
                    cpus = map (\<lambda>i. \<lparr>core = i, usage = Math_round (spec_usage (c1 ! i) (c2 ! i))\<rparr>)
                               [0..<length c2],
                    totalCPUs = length c2\<rparr>
         \<and> lastCpuSnapshot (init_server boot) = boot"
proof -
  have m1: "fst (metrics c1 s) = s\<lparr>lastCpuSnapshot := c1\<rparr>"
    by (simp add: metrics_def calc_within [OF assms(1)])
  have m2: "metrics c2 (s\<lparr>lastCpuSnapshot := c1\<rparr>)
      = (s\<lparr>lastCpuSnapshot := c2\<rparr>,
         Inr \<lparr>r_isStressing = isStressing s,
              cpus = map (\<lambda>i. \<lparr>core = i, usage = Math_round (spec_usage (c1 ! i) (c2 ! i))\<rparr>)
                         [0..<length c2],
              totalCPUs = length c2\<rparr>)"
    by (simp add: metrics_def calc_within [OF assms(2)] report_map)
  show ?thesis
    by (simp add: m1 m2 init_server_def)
qed

text \<open>
  The amended C7 at three snapshots of one core: the second call reports 100 (total delta
  100, idle delta 0 since the first call), not the 67 that the boot snapshot would give.
\<close>

theorem sample_replaces_previous_witness:
  "length [mk_cpu 150 0 50 800 0] \<le> length (lastCpuSnapshot (init_server [mk_cpu 100 0 0 700 0]))
   \<and> length [mk_cpu 250 0 50 800 0] \<le> length [mk_cpu 150 0 50 800 0]
   \<and> lastCpuSnapshot (fst (metrics [mk_cpu 150 0 50 800 0] (init_server [mk_cpu 100 0 0 700 0])))
       = [mk_cpu 150 0 50 800 0]
   \<and> snd (metrics [mk_cpu 250 0 50 800 0]
            (fst (metrics [mk_cpu 150 0 50 800 0] (init_server [mk_cpu 100 0 0 700 0]))))
       = Inr \<lparr>r_isStressing = False, cpus = [\<lparr>core = 0, usage = 100\<rparr>], totalCPUs = 1\<rparr>"
proof -
  have h1: "length [mk_cpu 150 0 50 800 0]
      \<le> length (lastCpuSnapshot (init_server [mk_cpu 100 0 0 700 0]))"
    by (simp add: init_server_def)
  have h2: "length [mk_cpu 250 0 50 800 0] \<le> length [mk_cpu 150 0 50 800 0]"
    by simp
  note v = usage_100
  note rd = round_100
  have f: "isStressing (init_server [mk_cpu 100 0 0 700 0]) = False"
    by (simp add: init_server_def)
  note t = sample_replaces_previous [OF h1 h2]
  show ?thesis
    using h1 h2 conjunct1 [OF t] conjunct1 [OF conjunct2 [OF conjunct2 [OF t]]]
    by (simp add: v rd f)
qed

section \<open>Properties of the load generator\<close>

lemma spawn_workers_flag: "isStressing (spawn_workers k d s) = isStressing s"
  by (induction k arbitrary: s) (simp_all add: spawn_worker_def Let_def)

lemma spawn_workers_constructed: "constructed (spawn_workers k d s) = constructed s + k"
  by (induction k arbitrary: s) (simp_all add: spawn_worker_def Let_def)

lemma spawn_workers_terminated: "terminated (spawn_workers k d s) = terminated s"
  by (induction k arbitrary: s) (simp_all add: spawn_worker_def Let_def)

lemma spawn_workers_snapshot: "lastCpuSnapshot (spawn_workers k d s) = lastCpuSnapshot s"
  by (induction k arbitrary: s) (simp_all add: spawn_worker_def Let_def)

lemma spawn_workers_handles:
  "stressWorkers (spawn_workers k d s) = stressWorkers s @ [constructed s..<constructed s + k]"
proof (induction k arbitrary: s)
  case 0
  show ?case by simp
next
  case (Suc k)
  have "[constructed s..<constructed s + Suc k] = constructed s # [Suc (constructed s)..<Suc (constructed s) + k]"
    by (simp add: upt_conv_Cons)
  then show ?case
    by (simp add: Suc.IH spawn_worker_def Let_def)
qed

lemma spawn_workers_posted:
  "posted (spawn_workers k d s)
   = posted s @ map (\<lambda>w. (w, d)) [constructed s..<constructed s + k]"
proof (induction k arbitrary: s)
  case 0
  show ?case by simp
next
  case (Suc k)
  have "[constructed s..<constructed s + Suc k] = constructed s # [Suc (constructed s)..<Suc (constructed s) + k]"
    by (simp add: upt_conv_Cons)
  then show ?case
    by (simp add: Suc.IH spawn_worker_def Let_def)
qed

lemma stressCPU_flag: "isStressing (stressCPU n d s) = False"
  by (simp add: stressCPU_def Let_def spawn_workers_flag stopStress_def)

lemma stressCPU_handles: "stressWorkers (stressCPU n d s) = [constructed s..<constructed s + n]"
  by (simp add: stressCPU_def Let_def spawn_workers_handles stopStress_def)

lemma stressCPU_posted:
  "posted (stressCPU n d s)
   = posted s @ map (\<lambda>w. (w, if d = Undefined then JNum (Fin 60000) else d))
                    [constructed s..<constructed s + n]"
  by (simp add: stressCPU_def Let_def spawn_workers_posted stopStress_def)

lemma stressCPU_terminated: "terminated (stressCPU n d s) = terminated s @ stressWorkers s"
  by (simp add: stressCPU_def Let_def spawn_workers_terminated stopStress_def)

lemma stressCPU_constructed: "constructed (stressCPU n d s) = constructed s + n"
  by (simp add: stressCPU_def Let_def spawn_workers_constructed stopStress_def)

text \<open>
  \<open>stressCPU\<close> sets the flag and then calls \<open>stopStress\<close>, which clears it: no handler
  leaves the flag set, so it is false after every sequence of events.
\<close>

lemma step_flag: "\<not> isStressing s \<Longrightarrow> \<not> isStressing (step s ev)"
  by (cases ev)
     (simp_all add: post_stress_def post_stop_stress_def Let_def stressCPU_flag stopStress_def
        metrics_def on_message_def on_exit_def on_error_def split: sum.splits)

lemma flag_never_set: "\<not> isStressing (run boot evs)"
  unfolding run_def
  by (induction evs rule: rev_induct) (simp_all add: init_server_def step_flag)

text \<open>
  Claim C1. The invariant "\<open>isStressing\<close> is true exactly when the handle list is not
  empty" is evaluated after one Start on a freshly started server of a host with four
  cores: the handle list holds four workers and \<open>isStressing\<close> is false.
\<close>

theorem flag_false_after_start:
  "run [] [PostStress (Some [(''duration'', JNum (Fin 5000))]) 4]
   = \<lparr>stressWorkers = [0, 1, 2, 3], isStressing = False, lastCpuSnapshot = [],
      constructed = 4,
      posted = [(0, JNum (Fin 5000)), (1, JNum (Fin 5000)), (2, JNum (Fin 5000)), (3, JNum (Fin 5000))],
      terminated = []\<rparr>"
  by (simp add: run_def init_server_def post_stress_def body_duration_def js_or_def
      stressCPU_def stopStress_def spawn_worker_def Let_def numeral_eq_Suc)

text \<open>
  Claim C2. Start with a duration of 5000 ms from the idle state of a host with four cores:
  \<open>stressCPU\<close> leaves four workers in the handle list, each sent the duration, and
  \<open>isStressing\<close> false.
\<close>

theorem start_from_idle_flag:
  "isStressing (stressCPU 4 (JNum (Fin 5000)) (init_server [])) = False
   \<and> stressWorkers (stressCPU 4 (JNum (Fin 5000)) (init_server [])) = [0, 1, 2, 3]
   \<and> posted (stressCPU 4 (JNum (Fin 5000)) (init_server []))
       = [(0, JNum (Fin 5000)), (1, JNum (Fin 5000)), (2, JNum (Fin 5000)), (3, JNum (Fin 5000))]"
  by (simp add: init_server_def stressCPU_def stopStress_def spawn_worker_def Let_def numeral_eq_Suc)

text \<open>
  Claim C3, as stated, fails: a request without a body, and one with the duration -5, are
  both answered with success on an idle server of a host with two cores, and two workers
  are spawned.
\<close>

theorem invalid_duration_not_rejected:
  "spec_invalid_duration (body_duration None)
   \<and> success (snd (post_stress None 2 (init_server [])))
   \<and> stressWorkers (fst (post_stress None 2 (init_server []))) = [0, 1]
   \<and> posted (fst (post_stress None 2 (init_server [])))
       = [(0, JNum (Fin 60000)), (1, JNum (Fin 60000))]
   \<and> spec_invalid_duration (body_duration (Some [(''duration'', JNum (Fin (- 5)))]))
   \<and> success (snd (post_stress (Some [(''duration'', JNum (Fin (- 5)))]) 2 (init_server [])))
   \<and> stressWorkers (fst (post_stress (Some [(''duration'', JNum (Fin (- 5)))]) 2 (init_server [])))
       = [0, 1]"
  by (simp add: post_stress_def body_duration_def js_or_def init_server_def
      stressCPU_def stopStress_def spawn_worker_def Let_def numeral_eq_Suc)

text \<open>
  Claim C3, amended. A Start request whose duration is missing or zero is not rejected:
  when \<open>isStressing\<close> is false it is answered with success and the duration 60000, and
  \<open>numCPUs\<close> new workers make up the handle list.
\<close>

theorem missing_duration_starts_campaign:
  assumes "body_duration b = Undefined \<or> body_duration b = JNum (Fin 0)"
    and "\<not> isStressing s"
  shows "snd (post_stress b numCPUs s)
           = \<lparr>success = True, message = ''Stress test started'', duration = Some (Fin 60000)\<rparr>
         \<and> stressWorkers (fst (post_stress b numCPUs s))
           = [constructed s..<constructed s + numCPUs]
         \<and> length (stressWorkers (fst (post_stress b numCPUs s))) = numCPUs
         \<and> constructed (fst (post_stress b numCPUs s)) = constructed s + numCPUs"
proof -
  have "Number_js (js_or (body_duration b) (JNum (Fin 60000))) = Fin 60000"
    using assms(1) by (auto simp: js_or_def)
  then show ?thesis
    using assms(2)
    by (simp add: post_stress_def Let_def stressCPU_handles stressCPU_constructed)
qed

text \<open>The amended C3 at a body without a \<open>duration\<close> field, on a host with three cores.\<close>

theorem missing_duration_starts_campaign_witness:
  "(body_duration (Some [(''other'', Null)]) = Undefined
      \<or> body_duration (Some [(''other'', Null)]) = JNum (Fin 0))
   \<and> \<not> isStressing (init_server [])
   \<and> snd (post_stress (Some [(''other'', Null)]) 3 (init_server []))
       = \<lparr>success = True, message = ''Stress test started'', duration = Some (Fin 60000)\<rparr>
   \<and> stressWorkers (fst (post_stress (Some [(''other'', Null)]) 3 (init_server []))) = [0, 1, 2]"
proof -
  have h1: "body_duration (Some [(''other'', Null)]) = Undefined
      \<or> body_duration (Some [(''other'', Null)]) = JNum (Fin 0)"
    by (simp add: body_duration_def)
  have h2: "\<not> isStressing (init_server [])"
    by (simp add: init_server_def)
  have c: "constructed (init_server []) = 0"
    by (simp add: init_server_def)
  have u: "[0..<3] = [0, 1, 2::nat]"
    by (simp add: upt_conv_Cons)
  show ?thesis
    using h1 h2 missing_duration_starts_campaign [OF h1 h2, of 3] by (simp add: c u)
qed

text \<open>
  Claim C4. A second Start while the four workers of a first one are active, on a host with
  four cores: since the first Start left \<open>isStressing\<close> false, the guard of \<open>POST /stress\<close>
  does not hold; the request is answered with success, \<open>terminate()\<close> is called on the four
  workers and four new ones are spawned.
\<close>

theorem second_start_not_rejected:
  "post_stress (Some [(''duration'', JNum (Fin 5000))]) 4
     (run [] [PostStress (Some [(''duration'', JNum (Fin 5000))]) 4])
   = (\<lparr>stressWorkers = [4, 5, 6, 7], isStressing = False, lastCpuSnapshot = [],
        constructed = 8,
        posted = [(0, JNum (Fin 5000)), (1, JNum (Fin 5000)), (2, JNum (Fin 5000)),
                  (3, JNum (Fin 5000)), (4, JNum (Fin 5000)), (5, JNum (Fin 5000)),
                  (6, JNum (Fin 5000)), (7, JNum (Fin 5000))],
        terminated = [0, 1, 2, 3]\<rparr>,
      \<lparr>success = True, message = ''Stress test started'', duration = Some (Fin 5000)\<rparr>)"
  by (simp add: run_def init_server_def post_stress_def body_duration_def js_or_def
      stressCPU_def stopStress_def spawn_worker_def Let_def numeral_eq_Suc)

text \<open>
  Claim C8. In every state, \<open>stopStress\<close> calls \<open>terminate()\<close> on every worker of the handle
  list and leaves the list empty and \<open>isStressing\<close> false; \<open>POST /stop-stress\<close> always
  answers with success; on an idle state \<open>stopStress\<close> changes nothing.
\<close>

theorem stop_clears_everything:
  "stressWorkers (stopStress s) = []
   \<and> \<not> isStressing (stopStress s)
   \<and> (\<forall>w \<in> set (stressWorkers s). w \<in> set (terminated (stopStress s)))
   \<and> post_stop_stress s
       = (stopStress s, \<lparr>success = True, message = ''Stress test stopped'', duration = None\<rparr>)
   \<and> (stressWorkers s = [] \<and> \<not> isStressing s \<longrightarrow> stopStress s = s)"
  by (simp add: stopStress_def post_stop_stress_def)

text \<open>C8 at a state with the workers 4 and 5 in the handle list, and at the idle state.\<close>

theorem stop_clears_everything_witness:
  "stopStress ((init_server [])\<lparr>stressWorkers := [4, 5], constructed := 6\<rparr>)
     = (init_server [])\<lparr>constructed := 6, terminated := [4, 5]\<rparr>
   \<and> 4 \<in> set (terminated (stopStress ((init_server [])\<lparr>stressWorkers := [4, 5], constructed := 6\<rparr>)))
   \<and> 5 \<in> set (terminated (stopStress ((init_server [])\<lparr>stressWorkers := [4, 5], constructed := 6\<rparr>)))
   \<and> stressWorkers (init_server []) = [] \<and> \<not> isStressing (init_server [])
   \<and> stopStress (init_server []) = init_server []
   \<and> post_stop_stress (init_server [])
       = (init_server [], \<lparr>success = True, message = ''Stress test stopped'', duration = None\<rparr>)"
proof -
  have h: "stressWorkers (init_server []) = [] \<and> \<not> isStressing (init_server [])"
    by (simp add: init_server_def)
  have e: "stopStress ((init_server [])\<lparr>stressWorkers := [4, 5], constructed := 6\<rparr>)
      = (init_server [])\<lparr>constructed := 6, terminated := [4, 5]\<rparr>"
    by (simp add: stopStress_def init_server_def)
  have w: "stressWorkers ((init_server [])\<lparr>stressWorkers := [4, 5], constructed := 6\<rparr>) = [4, 5]"
    by simp
  show ?thesis
    using h e
      stop_clears_everything [of "(init_server [])\<lparr>stressWorkers := [4, 5], constructed := 6\<rparr>"]
      stop_clears_everything [of "init_server []"]
    by (simp add: w)
qed

text \<open>
  Claim C10. When the duration of a Start request is falsy (absent, null, false, zero or
  \<open>NaN\<close>) and \<open>isStressing\<close> is false, the campaign is started with 60000 ms: the reply
  carries 60000 and every new worker is sent 60000. A worker that receives a falsy
  \<open>durationMs\<close> sets its deadline 60000 ms after its start.
\<close>

theorem default_duration_60000:
  assumes "\<not> truthy (body_duration b)" and "\<not> isStressing s" and "\<not> truthy v"
  shows "post_stress b numCPUs s
           = (stressCPU numCPUs (JNum (Fin 60000)) s,
              \<lparr>success = True, message = ''Stress test started'', duration = Some (Fin 60000)\<rparr>)
         \<and> posted (fst (post_stress b numCPUs s))
           = posted s @ map (\<lambda>w. (w, JNum (Fin 60000))) [constructed s..<constructed s + numCPUs]
         \<and> worker_end start v = Fin (start + 60000)"
  using assms
  by (simp add: post_stress_def Let_def js_or_def worker_end_def stressCPU_posted)

text \<open>C10 at a request with the duration 0, and at a worker that receives \<open>NaN\<close>.\<close>

theorem default_duration_60000_witness:
  "\<not> truthy (body_duration (Some [(''duration'', JNum (Fin 0))]))
   \<and> \<not> isStressing (init_server [])
   \<and> \<not> truthy (JNum NaN)
   \<and> post_stress (Some [(''duration'', JNum (Fin 0))]) 2 (init_server [])
       = (stressCPU 2 (JNum (Fin 60000)) (init_server []),
          \<lparr>success = True, message = ''Stress test started'', duration = Some (Fin 60000)\<rparr>)
   \<and> posted (fst (post_stress (Some [(''duration'', JNum (Fin 0))]) 2 (init_server [])))
       = [(0, JNum (Fin 60000)), (1, JNum (Fin 60000))]
   \<and> worker_end 1000 (JNum NaN) = Fin 61000"
proof -
  have h1: "\<not> truthy (body_duration (Some [(''duration'', JNum (Fin 0))]))"
    by (simp add: body_duration_def)
  have h2: "\<not> isStressing (init_server [])"
    by (simp add: init_server_def)
  have h3: "\<not> truthy (JNum NaN)"
    by simp
  have c: "constructed (init_server []) = 0" "posted (init_server []) = []"
    by (simp_all add: init_server_def)
  have u: "[0..<2] = [0, 1::nat]"
    by (simp add: upt_conv_Cons)
  note t = default_duration_60000 [OF h1 h2 h3, of 2 1000]
  have p: "posted (fst (post_stress (Some [(''duration'', JNum (Fin 0))]) 2 (init_server [])))
      = [(0, JNum (Fin 60000)), (1, JNum (Fin 60000))]"
    using conjunct1 [OF conjunct2 [OF t]] by (simp add: c u)
  show ?thesis
    using h1 h2 h3 p conjunct1 [OF t] conjunct2 [OF conjunct2 [OF t]] by simp
qed

section \<open>Properties of the worker\<close>




end
